theory Spec2Isabelle
  imports Main
begin

section \<open>JavaScript strings and errors\<close>

text \<open>
  A thrown or rejected JavaScript error is a value: \<open>Error msg\<close> for
  \<^verbatim>\<open>new Error(msg)\<close>, \<open>TypeError msg\<close> for the error raised by calling a
  value that is not a function.
\<close>

datatype js_error = Error string | TypeError string

text \<open>\<^verbatim>\<open>s.split("/")\<close>: the segments between separators; never the empty array.\<close>

fun js_split :: "char \<Rightarrow> string \<Rightarrow> string list" where
  "js_split sep [] = [[]]"
| "js_split sep (c # cs) =
     (if c = sep then [] # js_split sep cs
      else (case js_split sep cs of
              [] \<Rightarrow> [[c]]
            | w # ws \<Rightarrow> (c # w) # ws))"

text \<open>\<^verbatim>\<open>xs.join(sep)\<close>, which is also how an array is printed inside a template.\<close>

fun js_join :: "string \<Rightarrow> string list \<Rightarrow> string" where
  "js_join sep [] = []"
| "js_join sep [x] = x"
| "js_join sep (x # y # ys) = x @ sep @ js_join sep (y # ys)"

text \<open>A port number printed inside a template string.\<close>

definition digit_char :: "nat \<Rightarrow> char" where
  "digit_char d = (''0123456789'' ! (d mod 10))"

fun string_of_nat :: "nat \<Rightarrow> string" where
  "string_of_nat n =
     (if n < 10 then [digit_char n]
      else string_of_nat (n div 10) @ [digit_char (n mod 10)])"

declare string_of_nat.simps [simp del]

text \<open>
  Modelled from the spec: \<^verbatim>\<open>isEmpty\<close> of \<^verbatim>\<open>./util\<close> is not among the sources. The
  spec speaks of a "missing/empty" field: the value is absent or has no content.
\<close>

definition isEmpty :: "'a list option \<Rightarrow> bool" where
  "isEmpty v = (case v of None \<Rightarrow> True | Some x \<Rightarrow> x = [])"

text \<open>The \<^verbatim>\<open>route\<close> setting is a string or an array of strings.\<close>

datatype route_setting = RouteString string | RouteArray "string list"

definition isEmptyRoute :: "route_setting option \<Rightarrow> bool" where
  "isEmptyRoute v =
     (case v of
        None \<Rightarrow> True
      | Some (RouteString s) \<Rightarrow> s = []
      | Some (RouteArray rs) \<Rightarrow> rs = [])"

section \<open>The application factory\<close>

text \<open>
  The settings object handed to the factory: every field may be missing.
  \<open>publishEvent_opt\<close> tells whether a callback was supplied.
\<close>

record settings =
  userAgent_opt :: "string option"
  token_opt :: "string option"
  targetFolder_opt :: "string option"
  id_opt :: "string option"
  repo_opt :: "string option"
  port_opt :: "nat option"
  branch_opt :: "string option"
  route_opt :: "route_setting option"
  publishEvent_opt :: bool

text \<open>
  What the module takes from its environment and from modules that are not among the
  sources: the constants of \<^verbatim>\<open>./const\<close>, \<^verbatim>\<open>process.cwd()\<close>, the path functions
  of node, and \<^verbatim>\<open>Route.parseAll\<close> (which may throw).
\<close>

record platform =
  DEFAULT_APP_PORT :: nat
  DEFAULT_TARGET_FOLDER :: string
  process_cwd :: string
  fsPath_join :: "string \<Rightarrow> string \<Rightarrow> string"
  fsPath_resolve :: "string \<Rightarrow> string"
  Route_parseAll :: "route_setting \<Rightarrow> js_error + string list"

text \<open>
  The object returned by \<^verbatim>\<open>github.repo(userAgent, "user/name", { token })\<close>, with the
  two fields the factory adds to it.
\<close>

record repo =
  repo_name :: string
  repo_path :: string
  repo_fullPath :: string

text \<open>
  The app object, together with the variables its methods close over
  (\<open>processName\<close>, \<open>WORKING_DIRECTORY\<close>, \<open>publishEvent\<close>).
\<close>

record app =
  app_id :: string
  app_repo :: repo
  app_routes :: "string list"
  app_port :: nat
  app_branch :: string
  app_localFolder :: string
  processName :: string
  WORKING_DIRECTORY :: string
  publishEvent :: bool

text \<open>The messages of the five errors the factory throws.\<close>

definition msg_id_required :: string where
  "msg_id_required = [CHR 0x27] @ ''id'' @ [CHR 0x27] @ '' for the app is required''"

definition msg_repo_required :: string where
  "msg_repo_required =
     [CHR 0x27] @ ''repo'' @ [CHR 0x27] @ '' name required, eg. ''
     @ [CHR 0x27] @ ''username/my-repo'' @ [CHR 0x27]"

definition msg_userAgent_required :: string where
  "msg_userAgent_required =
     ''The github API user-agent must be specified.  See: https://developer.github.com/v3/#user-agent-required''"

definition msg_route_required :: "string \<Rightarrow> string" where
  "msg_route_required i =
     ''One or more '' @ [CHR 0x27] @ ''route'' @ [CHR 0x27]
     @ '' values must be specified for the '' @ [CHR 0x27] @ i @ [CHR 0x27] @ '' app.''"

definition msg_repo_parts :: string where
  "msg_repo_parts =
     ''A repo must have a '' @ [CHR 0x27] @ ''username'' @ [CHR 0x27] @ '' and ''
     @ [CHR 0x27] @ ''repo-name'' @ [CHR 0x27] @ '', eg ''
     @ [CHR 0x27] @ ''username/repo'' @ [CHR 0x27] @ ''.''"

text \<open>\<^verbatim>\<open>value || fallback\<close> on a string and on a number: absent, empty and 0 are falsy.\<close>

definition or_string :: "string option \<Rightarrow> string \<Rightarrow> string" where
  "or_string v d = (case v of None \<Rightarrow> d | Some s \<Rightarrow> if s = [] then d else s)"

definition or_number :: "nat option \<Rightarrow> nat \<Rightarrow> nat" where
  "or_number v d = (case v of None \<Rightarrow> d | Some n \<Rightarrow> if n = 0 then d else n)"

text \<open>
  The factory (the default export): the four emptiness checks in the order of the
  source, the defaults, the parsing of the routes, then the split of the repo.
\<close>

definition app :: "platform \<Rightarrow> settings \<Rightarrow> js_error + app" where
  "app pf st =
     (if isEmpty (id_opt st) then Inl (Error msg_id_required)
      else if isEmpty (repo_opt st) then Inl (Error msg_repo_required)
      else if isEmpty (userAgent_opt st) then Inl (Error msg_userAgent_required)
      else if isEmptyRoute (route_opt st)
        then Inl (Error (msg_route_required (case id_opt st of Some i \<Rightarrow> i | None \<Rightarrow> [])))
      else
        (case (id_opt st, repo_opt st, route_opt st) of
           (Some i, Some fullPath, Some route) \<Rightarrow>
             (let branch = or_string (branch_opt st) ''master'';
                  targetFolder = or_string (targetFolder_opt st) (DEFAULT_TARGET_FOLDER pf);
                  port = or_number (port_opt st) (DEFAULT_APP_PORT pf)
              in case Route_parseAll pf route of
                   Inl e \<Rightarrow> Inl e
                 | Inr routes \<Rightarrow>
                     (let parts = js_split CHR ''/'' fullPath
                      in if length parts < 2 then Inl (Error msg_repo_parts)
                         else
                           (let repoUser = parts ! 0;
                                repoName = parts ! 1;
                                repoSubFolder = js_join ''/'' (drop 2 parts);
                                localFolder =
                                  fsPath_resolve pf (fsPath_join pf targetFolder i)
                            in Inr \<lparr> app_id = i,
                                     app_repo = \<lparr> repo_name = repoUser @ ''/'' @ repoName,
                                                  repo_path = repoSubFolder,
                                                  repo_fullPath = fullPath \<rparr>,
                                     app_routes = routes,
                                     app_port = port,
                                     app_branch = branch,
                                     app_localFolder = localFolder,
                                     processName = i @ '':'' @ string_of_nat port,
                                     WORKING_DIRECTORY = process_cwd pf,
                                     publishEvent = publishEvent_opt st \<rparr>)))
         | _ \<Rightarrow> Inl (TypeError ''unreachable'')))"

section \<open>The download coordinator\<close>

text \<open>
  \<^verbatim>\<open>download\<close> keeps the promise of the running operation in \<^verbatim>\<open>this.downloading\<close>.
  The promises \<^verbatim>\<open>download\<close> has returned live in a store and are named by their
  index there; \<open>appDownload_calls\<close> records every call of \<^verbatim>\<open>appDownload\<close>, the
  capability that materialises the repository, with the options it received.
\<close>

record download_options =
  opt_install :: "bool option"
  opt_force :: "bool option"

record download_result =
  dl_path :: string
  dl_installed :: bool

datatype promise_state = Pending | Fulfilled download_result | RejectedWith js_error

record app_state =
  downloading :: "nat option"
  isDownloading :: "bool option"
  promises :: "promise_state list"
  appDownload_calls :: "download_options list"

definition initial_state :: app_state where
  "initial_state =
     \<lparr> downloading = None, isDownloading = None, promises = [], appDownload_calls = [] \<rparr>"

text \<open>
  \<^verbatim>\<open>download(options)\<close>: a set slot is returned as it is; otherwise \<^verbatim>\<open>appDownload\<close>
  is called and the promise derived from its result by \<^verbatim>\<open>.then\<close> is stored in the slot
  and returned.
\<close>

definition download :: "download_options \<Rightarrow> app_state \<Rightarrow> nat \<times> app_state" where
  "download options s =
     (case downloading s of
        Some p \<Rightarrow> (p, s)
      | None \<Rightarrow>
          (let p = length (promises s)
           in (p, s \<lparr> downloading := Some p,
                      promises := promises s @ [Pending],
                      appDownload_calls := appDownload_calls s @ [options] \<rparr>)))"

text \<open>
  The operation behind promise \<open>p\<close> settles. On fulfilment the handler given to
  \<^verbatim>\<open>.then\<close> runs: it sets \<^verbatim>\<open>isDownloading\<close>, deletes \<^verbatim>\<open>this.downloading\<close> and
  passes the result on. \<^verbatim>\<open>.then\<close> is given no handler for rejection: the derived promise
  is rejected with the same error and nothing else happens.
\<close>

definition settle :: "nat \<Rightarrow> js_error + download_result \<Rightarrow> app_state \<Rightarrow> app_state" where
  "settle p outcome s =
     (if p < length (promises s) \<and> promises s ! p = Pending then
        (case outcome of
           Inr result \<Rightarrow>
             s \<lparr> isDownloading := Some False,
                 downloading := None,
                 promises := (promises s)[p := Fulfilled result] \<rparr>
         | Inl err \<Rightarrow> s \<lparr> promises := (promises s)[p := RejectedWith err] \<rparr>)
      else s)"

text \<open>Several calls of \<^verbatim>\<open>download\<close> in a row, none of them awaited.\<close>

fun download_all :: "download_options list \<Rightarrow> app_state \<Rightarrow> nat list \<times> app_state" where
  "download_all [] s = ([], s)"
| "download_all (options # rest) s =
     (let (p, s1) = download options s;
          (ps, s2) = download_all rest s1
      in (p # ps, s2))"

text \<open>Any interleaving of calls and settlements, with the promises the calls returned.\<close>

datatype action = Download download_options | Settle nat "js_error + download_result"

fun run :: "action list \<Rightarrow> app_state \<Rightarrow> nat list \<times> app_state" where
  "run [] s = ([], s)"
| "run (Download options # rest) s =
     (let (p, s1) = download options s;
          (ps, s2) = run rest s1
      in (p # ps, s2))"
| "run (Settle p outcome # rest) s = run rest (settle p outcome s)"

section \<open>The lifecycle: update, start, stop, restart\<close>

text \<open>
  The lifecycle methods are coroutines that await one call after the other. Each is a
  function from the history of external calls made so far to the outcome of its promise
  and the external calls it makes itself, in order.
\<close>

datatype 'a outcome = Resolved 'a | Rejected js_error

datatype payload = IdVersion string "string option" | IdOnly string

datatype event =
    Pm2_connect
  | Pm2_delete string
  | Shell_cd string
  | Shell_exec string
  | Log_warn string
  | PublishEvent string payload
  | App_version
  | App_download

record update_options =
  opt_start :: "bool option"

record update_status =
  st_exists :: "bool option"
  st_updated :: bool
  st_version :: "string option"
  st_started :: "bool option"

record start_result =
  sr_id :: string
  sr_port :: nat
  sr_routes :: "string list"
  sr_version :: "string option"
  sr_started :: bool
  sr_exists :: bool

record stop_result =
  stopped_id :: string
  stopped :: bool

record restart_result =
  restarted_id :: string
  restarted :: bool

text \<open>
  The modules the methods call that are not among the sources. The adapter \<^verbatim>\<open>./pm2\<close>:
  its flag \<^verbatim>\<open>isInstalled\<close> and its promise-returning \<^verbatim>\<open>connect\<close> and \<^verbatim>\<open>delete\<close>,
  whose outcome may depend on what happened before. \<open>appUpdate\<close> stands for the call
  \<^verbatim>\<open>appUpdate(id, localFolder, () => this.version(), (args) => this.download(args),
  (args) => this.start(args), options)\<close> of \<^verbatim>\<open>./app-update\<close> with its callbacks bound:
  from the options and the history it gives the outcome and the external calls made
  meanwhile.
\<close>

record capabilities =
  pm2_isInstalled :: bool
  pm2_connect :: "event list \<Rightarrow> unit outcome"
  pm2_delete :: "string \<Rightarrow> event list \<Rightarrow> unit outcome"
  appUpdate :: "update_options \<Rightarrow> event list \<Rightarrow> update_status outcome \<times> event list"

text \<open>
  \<^verbatim>\<open>update(options)\<close>: returns the promise of \<^verbatim>\<open>appUpdate\<close>; the handler attached to
  it publishes the event when a callback was supplied and the result is flagged updated.
\<close>

definition update ::
  "capabilities \<Rightarrow> app \<Rightarrow> update_options \<Rightarrow> event list \<Rightarrow> update_status outcome \<times> event list"
where
  "update caps a options h =
     (case appUpdate caps options h of
        (Rejected err, evs) \<Rightarrow> (Rejected err, evs)
      | (Resolved result, evs) \<Rightarrow>
          (Resolved result,
           evs @ (if publishEvent a \<and> st_updated result
                  then [PublishEvent ''app:updated''
                          (IdVersion (app_id a) (st_version result))]
                  else [])))"

text \<open>\<^verbatim>\<open>stop()\<close>: connect and delete when pm2 is installed; any error rejects.\<close>

definition stop :: "capabilities \<Rightarrow> app \<Rightarrow> event list \<Rightarrow> stop_result outcome \<times> event list" where
  "stop caps a h =
     (if pm2_isInstalled caps then
        (case pm2_connect caps h of
           Rejected err \<Rightarrow> (Rejected err, [Pm2_connect])
         | Resolved _ \<Rightarrow>
             (case pm2_delete caps (processName a) (h @ [Pm2_connect]) of
                Rejected err \<Rightarrow> (Rejected err, [Pm2_connect, Pm2_delete (processName a)])
              | Resolved _ \<Rightarrow>
                  (Resolved \<lparr> stopped_id = app_id a, stopped = True \<rparr>,
                   [Pm2_connect, Pm2_delete (processName a)])))
      else (Resolved \<lparr> stopped_id = app_id a, stopped = True \<rparr>, []))"

text \<open>The command line \<^verbatim>\<open>start\<close> hands to the shell, and its warning.\<close>

definition pm2_start_command :: "app \<Rightarrow> string" where
  "pm2_start_command a =
     ''pm2 start . --name '' @ [CHR 0x27] @ processName a @ [CHR 0x27]
     @ '' --node-args '' @ [CHR 0x27] @ ''. --port '' @ string_of_nat (app_port a) @ [CHR 0x27]"

definition msg_cannot_start :: "app \<Rightarrow> string" where
  "msg_cannot_start a =
     ''WARNING: The app '' @ [CHR 0x27] @ app_id a @ [CHR 0x27]
     @ '' cannot be started as it does not exist at: '' @ [CHR 0x27]
     @ repo_fullPath (app_repo a) @ '':'' @ app_branch a @ [CHR 0x27]"

text \<open>
  \<^verbatim>\<open>start()\<close>: awaits \<^verbatim>\<open>update({ start: false })\<close>, awaits \<^verbatim>\<open>stop()\<close>, then starts the
  process through the shell unless the status says \<^verbatim>\<open>exists === false\<close>.
\<close>

definition start :: "capabilities \<Rightarrow> app \<Rightarrow> event list \<Rightarrow> start_result outcome \<times> event list" where
  "start caps a h =
     (case update caps a \<lparr> opt_start = Some False \<rparr> h of
        (Rejected err, evs1) \<Rightarrow> (Rejected err, evs1)
      | (Resolved status, evs1) \<Rightarrow>
          (case stop caps a (h @ evs1) of
             (Rejected err, evs2) \<Rightarrow> (Rejected err, evs1 @ evs2)
           | (Resolved _, evs2) \<Rightarrow>
               (let result = \<lparr> sr_id = app_id a, sr_port = app_port a,
                                sr_routes = app_routes a, sr_version = st_version status,
                                sr_started = False, sr_exists = False \<rparr>
                in if st_exists status \<noteq> Some False then
                     (Resolved (result \<lparr> sr_started := True, sr_exists := True \<rparr>),
                      evs1 @ evs2 @ [Shell_cd (app_localFolder a),
                                     Shell_exec (pm2_start_command a),
                                     Shell_cd (WORKING_DIRECTORY a)])
                   else
                     (Resolved (result \<lparr> sr_started := False, sr_exists := False \<rparr>),
                      evs1 @ evs2 @ [Log_warn (msg_cannot_start a)]))))"

text \<open>
  \<^verbatim>\<open>restart()\<close>: awaits \<^verbatim>\<open>start()\<close>, then calls \<^verbatim>\<open>publishEvent\<close> without looking whether
  there is one; calling an absent callback throws, and the \<^verbatim>\<open>catch\<close> rejects.
\<close>

definition restart ::
  "capabilities \<Rightarrow> app \<Rightarrow> event list \<Rightarrow> restart_result outcome \<times> event list"
where
  "restart caps a h =
     (case start caps a h of
        (Rejected err, evs) \<Rightarrow> (Rejected err, evs)
      | (Resolved _, evs) \<Rightarrow>
          (if publishEvent a then
             (Resolved \<lparr> restarted_id = app_id a, restarted = True \<rparr>,
              evs @ [PublishEvent ''app:restarted'' (IdOnly (app_id a))])
           else (Rejected (TypeError ''publishEvent is not a function''), evs)))"

section \<open>The update procedure and the closed lifecycle\<close>

text \<open>
  What \<^verbatim>\<open>this.version()\<close> resolves with, and the two operations of the app that the
  update procedure awaits besides \<^verbatim>\<open>start\<close>: \<^verbatim>\<open>this.version()\<close> and
  \<^verbatim>\<open>this.download(args)\<close>. Their outcome may depend on what happened before; in the
  history they appear as \<open>App_version\<close> and \<open>App_download\<close>.
\<close>

record version_info =
  v_exists :: bool
  v_local :: "string option"
  v_remote :: "string option"

record remote =
  app_version :: "event list \<Rightarrow> version_info outcome"
  app_download :: "event list \<Rightarrow> download_result outcome"

text \<open>
  Modelled from the spec: \<^verbatim>\<open>appUpdate\<close> of \<^verbatim>\<open>./app-update\<close> is not among the sources.
  The spec (update, steps 1 to 4): resolve the version; if the remote does not exist the
  result is exists false, updated false and nothing more happens; an update is needed iff
  the versions differ or there is no local manifest; if needed, download, and on success,
  if the option start is set (default true), call start(); return updated, version,
  exists true and started. Any error rejects the operation. The arguments are those of
  the call in \<^verbatim>\<open>update\<close>: the id, the local folder, the three callbacks and the options.
\<close>

definition appUpdate_model ::
  "string \<Rightarrow> string
   \<Rightarrow> (event list \<Rightarrow> version_info outcome \<times> event list)
   \<Rightarrow> (event list \<Rightarrow> download_result outcome \<times> event list)
   \<Rightarrow> (event list \<Rightarrow> start_result outcome \<times> event list)
   \<Rightarrow> update_options \<Rightarrow> event list \<Rightarrow> update_status outcome \<times> event list"
where
  "appUpdate_model i localFolder getVersion download_cb start_cb options h =
     (case getVersion h of
        (Rejected err, evs1) \<Rightarrow> (Rejected err, evs1)
      | (Resolved v, evs1) \<Rightarrow>
          (if \<not> v_exists v then
             (Resolved \<lparr> st_exists = Some False, st_updated = False, st_version = None,
                          st_started = None \<rparr>, evs1)
           else if v_local v = None \<or> v_local v \<noteq> v_remote v then
             (case download_cb (h @ evs1) of
                (Rejected err, evs2) \<Rightarrow> (Rejected err, evs1 @ evs2)
              | (Resolved _, evs2) \<Rightarrow>
                  (if opt_start options \<noteq> Some False then
                     (case start_cb (h @ evs1 @ evs2) of
                        (Rejected err, evs3) \<Rightarrow> (Rejected err, evs1 @ evs2 @ evs3)
                      | (Resolved started, evs3) \<Rightarrow>
                          (Resolved \<lparr> st_exists = Some True, st_updated = True,
                                       st_version = v_remote v,
                                       st_started = Some (sr_started started) \<rparr>,
                           evs1 @ evs2 @ evs3))
                   else
                     (Resolved \<lparr> st_exists = Some True, st_updated = True,
                                  st_version = v_remote v, st_started = None \<rparr>,
                      evs1 @ evs2)))
           else
             (Resolved \<lparr> st_exists = Some True, st_updated = False,
                          st_version = v_remote v, st_started = None \<rparr>, evs1)))"

text \<open>
  The capabilities of an app whose \<^verbatim>\<open>appUpdate\<close> is the procedure above, handed the
  callbacks as \<^verbatim>\<open>update\<close> hands them: \<^verbatim>\<open>() => this.version()\<close>,
  \<^verbatim>\<open>(args) => this.download(args)\<close> and \<^verbatim>\<open>(args) => this.start(args)\<close>. Since
  \<^verbatim>\<open>start\<close> calls \<^verbatim>\<open>update\<close> again, the number bounds how deep the calls of
  \<^verbatim>\<open>appUpdate\<close> may nest; below the bound the call does not return, which is the
  rejection here. The pm2 adapter is that of \<open>base\<close>.
\<close>

fun app_capabilities :: "capabilities \<Rightarrow> remote \<Rightarrow> app \<Rightarrow> nat \<Rightarrow> capabilities" where
  "app_capabilities base rm a 0 =
     base \<lparr> appUpdate := (\<lambda>options h. (Rejected (Error ''nesting bound reached''), [])) \<rparr>"
| "app_capabilities base rm a (Suc n) =
     base \<lparr> appUpdate :=
              appUpdate_model (app_id a) (app_localFolder a)
                (\<lambda>h. (app_version rm h, [App_version]))
                (\<lambda>h. (app_download rm h, [App_download]))
                (start (app_capabilities base rm a n) a) \<rparr>"

section \<open>The webhook dispatcher\<close>

record repository =
  full_name :: string
  default_branch :: string

record webhook_body =
  ref :: "string option"
  repository :: repository

text \<open>
  \<^verbatim>\<open>(data.ref && R.last(data.ref.split("/"))) || data.repository.default_branch\<close>:
  a missing or empty \<^verbatim>\<open>ref\<close> and an empty last segment are falsy.
\<close>

definition resolve_branch :: "webhook_body \<Rightarrow> string" where
  "resolve_branch data =
     (case ref data of
        None \<Rightarrow> default_branch (repository data)
      | Some r \<Rightarrow>
          (if r = [] then default_branch (repository data)
           else (let seg = last (js_split CHR ''/'' r)
                 in if seg = [] then default_branch (repository data) else seg)))"

definition isRepoMatch :: "string \<Rightarrow> string \<Rightarrow> app \<Rightarrow> bool" where
  "isRepoMatch repo branch a = (repo_name (app_repo a) = repo \<and> app_branch a = branch)"

datatype webhook_event =
    Log_info string
  | App_update app
  | Res_status nat
  | Res_send

definition msg_webhook :: "string \<Rightarrow> string \<Rightarrow> app list \<Rightarrow> string" where
  "msg_webhook repo branch matchingApps =
     ''Github webhook for '' @ [CHR 0x27] @ repo @ '':'' @ branch @ [CHR 0x27]
     @ '' => Checking for updates: '' @ js_join '','' (map app_id matchingApps)"

text \<open>
  \<^verbatim>\<open>post(req, res)\<close>: what the handler does, in order. \<open>App_update a\<close> is the call
  \<^verbatim>\<open>a.update()\<close>, whose promise the handler drops.
\<close>

definition post :: "app list \<Rightarrow> webhook_body \<Rightarrow> webhook_event list" where
  "post apps data =
     (let branch = resolve_branch data;
          repo = full_name (repository data);
          matchingApps = filter (isRepoMatch repo branch) apps
      in (if length matchingApps > 0
          then Log_info (msg_webhook repo branch matchingApps) # map App_update matchingApps
          else [])
         @ [Res_status 200, Res_send])"

section \<open>Auxiliary notions for the properties\<close>

text \<open>Whether an action is the settlement of promise \<open>p\<close>.\<close>

fun settles :: "nat \<Rightarrow> action \<Rightarrow> bool" where
  "settles p (Settle q outcome) = (q = p)"
| "settles p (Download options) = False"

text \<open>The invariant of the coordinator: a pending promise is the one held in the slot.\<close>

definition single_flight_inv :: "app_state \<Rightarrow> bool" where
  "single_flight_inv s =
     (\<forall>q < length (promises s). promises s ! q = Pending \<longrightarrow> downloading s = Some q)"

text \<open>The apps whose \<^verbatim>\<open>update()\<close> the webhook handler called, in order.\<close>

fun updates_of :: "webhook_event list \<Rightarrow> app list" where
  "updates_of [] = []"
| "updates_of (App_update a # es) = a # updates_of es"
| "updates_of (e # es) = updates_of es"

section \<open>Example inputs\<close>

definition example_platform :: platform where
  "example_platform =
     \<lparr> DEFAULT_APP_PORT = 3000,
       DEFAULT_TARGET_FOLDER = ''./.build'',
       process_cwd = ''/srv'',
       fsPath_join = (\<lambda>a b. a @ ''/'' @ b),
       fsPath_resolve = (\<lambda>p. ''/srv/'' @ p),
       Route_parseAll =
         (\<lambda>r. Inr (case r of RouteString s \<Rightarrow> [s] | RouteArray rs \<Rightarrow> rs)) \<rparr>"

definition svc_a_settings :: settings where
  "svc_a_settings =
     \<lparr> userAgent_opt = Some ''app-sync'', token_opt = None, targetFolder_opt = None,
       id_opt = Some ''svc-a'', repo_opt = Some ''acme/svc-a'', port_opt = None,
       branch_opt = None, route_opt = Some (RouteString ''/svc-a''),
       publishEvent_opt = False \<rparr>"

definition svc_a :: app where
  "svc_a =
     \<lparr> app_id = ''svc-a'',
       app_repo = \<lparr> repo_name = ''acme/svc-a'', repo_path = [],
                    repo_fullPath = ''acme/svc-a'' \<rparr>,
       app_routes = [''/svc-a''], app_port = 3000, app_branch = ''master'',
       app_localFolder = ''/srv/./.build/svc-a'',
       processName = ''svc-a:3000'', WORKING_DIRECTORY = ''/srv'',
       publishEvent = False \<rparr>"

definition svc_a_publishing :: app where
  "svc_a_publishing = svc_a \<lparr> publishEvent := True \<rparr>"

definition default_download :: download_options where
  "default_download = \<lparr> opt_install = None, opt_force = None \<rparr>"

definition no_install :: download_options where
  "no_install = \<lparr> opt_install = Some False, opt_force = None \<rparr>"

definition one_in_flight :: app_state where
  "one_in_flight =
     \<lparr> downloading = Some 0, isDownloading = None, promises = [Pending],
       appDownload_calls = [default_download] \<rparr>"

definition status_current :: update_status where
  "status_current =
     \<lparr> st_exists = Some True, st_updated = False, st_version = Some ''1.2.0'',
       st_started = None \<rparr>"

definition status_updated :: update_status where
  "status_updated =
     \<lparr> st_exists = Some True, st_updated = True, st_version = Some ''1.3.0'',
       st_started = Some False \<rparr>"

definition status_missing :: update_status where
  "status_missing =
     \<lparr> st_exists = Some False, st_updated = False, st_version = None,
       st_started = None \<rparr>"

text \<open>
  Capabilities whose outcomes do not depend on the history: whether pm2 is installed,
  how \<^verbatim>\<open>connect\<close> and \<^verbatim>\<open>delete\<close> settle, and how \<^verbatim>\<open>appUpdate\<close> settles.
\<close>

definition caps_of ::
  "bool \<Rightarrow> unit outcome \<Rightarrow> unit outcome \<Rightarrow> update_status outcome \<Rightarrow> capabilities"
where
  "caps_of installed connected deleted updated =
     \<lparr> pm2_isInstalled = installed,
       pm2_connect = (\<lambda>h. connected),
       pm2_delete = (\<lambda>name h. deleted),
       appUpdate = (\<lambda>options h. (updated, [])) \<rparr>"

definition newer_remote :: remote where
  "newer_remote =
     \<lparr> app_version =
         (\<lambda>h. Resolved \<lparr> v_exists = True,
                          v_local = (if App_download \<in> set h then Some ''1.3.0''
                                     else Some ''1.2.0''),
                          v_remote = Some ''1.3.0'' \<rparr>),
       app_download = (\<lambda>h. Resolved \<lparr> dl_path = ''/srv/./.build/svc-a'',
                                         dl_installed = True \<rparr>) \<rparr>"

definition pm2_ready :: capabilities where
  "pm2_ready = caps_of True (Resolved ()) (Resolved ()) (Resolved status_current)"

definition push_master :: webhook_body where
  "push_master =
     \<lparr> ref = Some ''refs/heads/master'',
       repository = \<lparr> full_name = ''acme/svc-a'', default_branch = ''master'' \<rparr> \<rparr>"

definition push_trailing_slash :: webhook_body where
  "push_trailing_slash =
     \<lparr> ref = Some ''refs/heads/'',
       repository = \<lparr> full_name = ''acme/svc-a'', default_branch = ''master'' \<rparr> \<rparr>"

definition ping_other_repo :: webhook_body where
  "ping_other_repo =
     \<lparr> ref = None,
       repository = \<lparr> full_name = ''acme/other'', default_branch = ''master'' \<rparr> \<rparr>"

section \<open>Properties of the application factory\<close>

lemma js_split_nonempty: "js_split sep s \<noteq> []"
  by (induction s) (auto split: list.splits)

lemma msgs_distinct:
  "distinct [msg_id_required, msg_repo_required, msg_repo_parts, msg_route_required i,
             msg_userAgent_required]"
  by (simp add: msg_id_required_def msg_repo_required_def msg_userAgent_required_def
      msg_route_required_def msg_repo_parts_def)

lemma app_id_error: "isEmpty (id_opt st) \<Longrightarrow> app pf st = Inl (Error msg_id_required)"
  by (simp add: app_def)

lemma app_repo_error:
  "\<not> isEmpty (id_opt st) \<Longrightarrow> isEmpty (repo_opt st) \<Longrightarrow>
   app pf st = Inl (Error msg_repo_required)"
  by (simp add: app_def)

lemma app_userAgent_error:
  "\<not> isEmpty (id_opt st) \<Longrightarrow> \<not> isEmpty (repo_opt st) \<Longrightarrow> isEmpty (userAgent_opt st) \<Longrightarrow>
   app pf st = Inl (Error msg_userAgent_required)"
  by (simp add: app_def)

lemma app_route_error:
  "id_opt st = Some i \<Longrightarrow> i \<noteq> [] \<Longrightarrow> \<not> isEmpty (repo_opt st) \<Longrightarrow>
   \<not> isEmpty (userAgent_opt st) \<Longrightarrow> isEmptyRoute (route_opt st) \<Longrightarrow>
   app pf st = Inl (Error (msg_route_required i))"
  by (simp add: app_def isEmpty_def)

text \<open>What the factory does once the four emptiness checks and the route parser have passed.\<close>

lemma app_checked:
  assumes "id_opt st = Some i" "i \<noteq> []" "repo_opt st = Some r" "r \<noteq> []"
    "\<not> isEmpty (userAgent_opt st)" "route_opt st = Some rt" "\<not> isEmptyRoute (Some rt)"
    "Route_parseAll pf rt = Inr routes"
  shows "app pf st =
     (let parts = js_split CHR ''/'' r
      in if length parts < 2 then Inl (Error msg_repo_parts)
         else Inr \<lparr> app_id = i,
                    app_repo = \<lparr> repo_name = parts ! 0 @ ''/'' @ parts ! 1,
                                 repo_path = js_join ''/'' (drop 2 parts),
                                 repo_fullPath = r \<rparr>,
                    app_routes = routes,
                    app_port = or_number (port_opt st) (DEFAULT_APP_PORT pf),
                    app_branch = or_string (branch_opt st) ''master'',
                    app_localFolder =
                      fsPath_resolve pf
                        (fsPath_join pf
                           (or_string (targetFolder_opt st) (DEFAULT_TARGET_FOLDER pf)) i),
                    processName =
                      i @ '':'' @ string_of_nat (or_number (port_opt st) (DEFAULT_APP_PORT pf)),
                    WORKING_DIRECTORY = process_cwd pf,
                    publishEvent = publishEvent_opt st \<rparr>)"
  using assms by (simp add: app_def isEmpty_def Let_def)

lemma app_fails:
  assumes "isEmpty (id_opt st) \<or> isEmpty (repo_opt st) \<or> isEmptyRoute (route_opt st)
           \<or> (\<exists>r. repo_opt st = Some r \<and> length (js_split CHR ''/'' r) < 2)"
  shows "\<exists>e. app pf st = Inl e"
  using assms
  by (auto simp: app_def isEmpty_def Let_def split: option.splits sum.splits)

text \<open>
  Past the emptiness checks the three fields are present: the last case of the pattern
  match in the factory is never taken, and a type error can only come from the route parser.
\<close>

lemma app_TypeError:
  "app pf st = Inl (TypeError m) \<Longrightarrow>
   \<exists>rt. route_opt st = Some rt \<and> Route_parseAll pf rt = Inl (TypeError m)"
  by (auto simp: app_def isEmpty_def isEmptyRoute_def Let_def
      split: if_splits option.splits sum.splits)

lemma app_processName:
  "app pf st = Inr a \<Longrightarrow> processName a = app_id a @ '':'' @ string_of_nat (app_port a)"
  by (auto simp: app_def Let_def split: if_splits option.splits sum.splits)

lemma app_svc_a: "app example_platform svc_a_settings = Inr svc_a"
  by (simp add: app_def example_platform_def svc_a_settings_def svc_a_def isEmpty_def
      isEmptyRoute_def or_string_def or_number_def digit_char_def string_of_nat.simps)

text \<open>
  C7, as the claim states it, fails: a registration without a branch gives the app the
  branch "master", not "main".
\<close>

theorem app_branch_main_counterexample:
  "branch_opt svc_a_settings = None
   \<and> app example_platform svc_a_settings = Inr svc_a
   \<and> app_branch svc_a = ''master''
   \<and> app_branch svc_a \<noteq> ''main''"
  using app_svc_a by (simp add: svc_a_settings_def svc_a_def)

text \<open>
  C7 (amended): for every registration input that omits the branch (or gives an empty
  one), the branch of the created app is the default branch name "master".
\<close>

theorem app_branch_default:
  "branch_opt st = None \<or> branch_opt st = Some [] \<Longrightarrow> app pf st = Inr a \<Longrightarrow>
   app_branch a = ''master''"
  by (auto simp: app_def or_string_def Let_def
      split: if_splits option.splits sum.splits)

theorem app_branch_default_witness:
  "branch_opt svc_a_settings = None
   \<and> app example_platform svc_a_settings = Inr svc_a
   \<and> app_branch svc_a = ''master''"
proof -
  have h1: "branch_opt svc_a_settings = None \<or> branch_opt svc_a_settings = Some []"
    by (simp add: svc_a_settings_def)
  show ?thesis
    using app_svc_a app_branch_default [OF h1 app_svc_a]
    by (simp add: svc_a_settings_def)
qed

text \<open>
  C8: registration fails with its own error for a missing or empty id, for a missing or
  empty repo and for a repo of fewer than two path segments, and for a missing or empty
  route; the messages of these errors differ from each other; each of the three defects
  makes the registration fail whatever the other fields are; and an input that has an
  id, a repo of at least two segments, a user agent and a route the route parser accepts
  succeeds and returns the app.
\<close>

theorem app_validation:
  "(isEmpty (id_opt st) \<longrightarrow> app pf st = Inl (Error msg_id_required))
   \<and> (\<not> isEmpty (id_opt st) \<and> isEmpty (repo_opt st) \<longrightarrow>
        app pf st = Inl (Error msg_repo_required))
   \<and> (id_opt st = Some i \<and> i \<noteq> [] \<and> repo_opt st = Some r \<and> r \<noteq> []
        \<and> length (js_split CHR ''/'' r) < 2
        \<and> \<not> isEmpty (userAgent_opt st) \<and> route_opt st = Some rt \<and> \<not> isEmptyRoute (Some rt)
        \<and> Route_parseAll pf rt = Inr routes \<longrightarrow>
        app pf st = Inl (Error msg_repo_parts))
   \<and> (id_opt st = Some i \<and> i \<noteq> [] \<and> \<not> isEmpty (repo_opt st)
        \<and> \<not> isEmpty (userAgent_opt st) \<and> isEmptyRoute (route_opt st) \<longrightarrow>
        app pf st = Inl (Error (msg_route_required i)))
   \<and> distinct [msg_id_required, msg_repo_required, msg_repo_parts, msg_route_required i]
   \<and> (isEmpty (id_opt st) \<or> isEmpty (repo_opt st) \<or> isEmptyRoute (route_opt st)
        \<or> (\<exists>r'. repo_opt st = Some r' \<and> length (js_split CHR ''/'' r') < 2) \<longrightarrow>
        (\<exists>e. app pf st = Inl e))
   \<and> (id_opt st = Some i \<and> i \<noteq> [] \<and> repo_opt st = Some r
        \<and> 2 \<le> length (js_split CHR ''/'' r)
        \<and> \<not> isEmpty (userAgent_opt st) \<and> route_opt st = Some rt \<and> \<not> isEmptyRoute (Some rt)
        \<and> Route_parseAll pf rt = Inr routes \<longrightarrow>
        (\<exists>a. app pf st = Inr a \<and> app_id a = i \<and> repo_fullPath (app_repo a) = r
             \<and> app_routes a = routes))"
proof -
  have ok: "\<exists>a. app pf st = Inr a \<and> app_id a = i \<and> repo_fullPath (app_repo a) = r
             \<and> app_routes a = routes"
    if "id_opt st = Some i" "i \<noteq> []" "repo_opt st = Some r"
      "2 \<le> length (js_split CHR ''/'' r)"
      "\<not> isEmpty (userAgent_opt st)" "route_opt st = Some rt" "\<not> isEmptyRoute (Some rt)"
      "Route_parseAll pf rt = Inr routes"
  proof -
    have "r \<noteq> []" using that(4) by auto
    from app_checked [OF that(1,2,3) this that(5,6,7,8)] that(4)
    show ?thesis by (simp add: Let_def)
  qed
  have parts: "app pf st = Inl (Error msg_repo_parts)"
    if "id_opt st = Some i" "i \<noteq> []" "repo_opt st = Some r" "r \<noteq> []"
      "length (js_split CHR ''/'' r) < 2"
      "\<not> isEmpty (userAgent_opt st)" "route_opt st = Some rt" "\<not> isEmptyRoute (Some rt)"
      "Route_parseAll pf rt = Inr routes"
    using app_checked [OF that(1,2,3,4,6,7,8,9)] that(5) by (simp add: Let_def)
  show ?thesis
    using app_id_error [of st pf] app_repo_error [of st pf] app_route_error [of st i pf]
      app_fails [of st pf] msgs_distinct [of i] ok parts
    by simp
qed

theorem app_validation_witness:
  "app example_platform (svc_a_settings \<lparr> id_opt := None \<rparr>) = Inl (Error msg_id_required)
   \<and> app example_platform (svc_a_settings \<lparr> repo_opt := None \<rparr>)
       = Inl (Error msg_repo_required)
   \<and> app example_platform (svc_a_settings \<lparr> repo_opt := Some ''solo'' \<rparr>)
       = Inl (Error msg_repo_parts)
   \<and> app example_platform (svc_a_settings \<lparr> route_opt := Some (RouteString []) \<rparr>)
       = Inl (Error (msg_route_required ''svc-a''))
   \<and> (\<exists>a. app example_platform svc_a_settings = Inr a \<and> app_id a = ''svc-a'')"
proof -
  have no_id:
    "app example_platform (svc_a_settings \<lparr> id_opt := None \<rparr>) = Inl (Error msg_id_required)"
    using app_validation [where st = "svc_a_settings \<lparr> id_opt := None \<rparr>"
                            and pf = example_platform and i = "[]" and r = "[]"
                            and rt = "RouteString []" and routes = "[]"]
    by (simp add: svc_a_settings_def isEmpty_def)
  have no_repo:
    "app example_platform (svc_a_settings \<lparr> repo_opt := None \<rparr>)
       = Inl (Error msg_repo_required)"
    using app_validation [where st = "svc_a_settings \<lparr> repo_opt := None \<rparr>"
                            and pf = example_platform and i = "[]" and r = "[]"
                            and rt = "RouteString []" and routes = "[]"]
    by (simp add: svc_a_settings_def isEmpty_def)
  have solo:
    "app example_platform (svc_a_settings \<lparr> repo_opt := Some ''solo'' \<rparr>)
       = Inl (Error msg_repo_parts)"
    using app_validation [where st = "svc_a_settings \<lparr> repo_opt := Some ''solo'' \<rparr>"
                            and pf = example_platform and i = "''svc-a''" and r = "''solo''"
                            and rt = "RouteString ''/svc-a''" and routes = "[''/svc-a'']"]
    by (simp add: svc_a_settings_def example_platform_def isEmpty_def isEmptyRoute_def)
  have no_route:
    "app example_platform (svc_a_settings \<lparr> route_opt := Some (RouteString []) \<rparr>)
       = Inl (Error (msg_route_required ''svc-a''))"
    using app_validation [where st = "svc_a_settings \<lparr> route_opt := Some (RouteString []) \<rparr>"
                            and pf = example_platform and i = "''svc-a''" and r = "[]"
                            and rt = "RouteString []" and routes = "[]"]
    by (simp add: svc_a_settings_def isEmpty_def isEmptyRoute_def)
  have valid: "\<exists>a. app example_platform svc_a_settings = Inr a \<and> app_id a = ''svc-a''"
    using app_validation [where st = svc_a_settings
                            and pf = example_platform and i = "''svc-a''"
                            and r = "''acme/svc-a''"
                            and rt = "RouteString ''/svc-a''" and routes = "[''/svc-a'']"]
    by (auto simp add: svc_a_settings_def example_platform_def isEmpty_def isEmptyRoute_def)
  show ?thesis using no_id no_repo solo no_route valid by simp
qed

section \<open>Properties of the download coordinator\<close>

lemma inv_initial: "single_flight_inv initial_state"
  by (simp add: single_flight_inv_def initial_state_def)

lemma inv_download: "single_flight_inv s \<Longrightarrow> single_flight_inv (snd (download options s))"
  by (auto simp: single_flight_inv_def download_def Let_def nth_append split: option.splits)

lemma pending_unique:
  "single_flight_inv s \<Longrightarrow> p < length (promises s) \<Longrightarrow> promises s ! p = Pending \<Longrightarrow>
   q < length (promises s) \<Longrightarrow> promises s ! q = Pending \<Longrightarrow> q = p"
  unfolding single_flight_inv_def by (metis option.inject)

lemma inv_settle: "single_flight_inv s \<Longrightarrow> single_flight_inv (settle p outcome s)"
proof (cases "p < length (promises s) \<and> promises s ! p = Pending")
  case False
  assume "single_flight_inv s"
  moreover have "settle p outcome s = s" using False by (auto simp: settle_def)
  ultimately show ?thesis by simp
next
  case True
  assume inv: "single_flight_inv s"
  have only: "\<And>q. q < length (promises s) \<Longrightarrow> promises s ! q = Pending \<Longrightarrow> q = p"
    using pending_unique [OF inv] True by blast
  show ?thesis
  proof (cases outcome)
    case (Inl err)
    then show ?thesis
      using True only by (auto simp: single_flight_inv_def settle_def nth_list_update)
  next
    case (Inr result)
    then show ?thesis
      using True only by (auto simp: single_flight_inv_def settle_def nth_list_update)
  qed
qed

lemma inv_run: "single_flight_inv s \<Longrightarrow> single_flight_inv (snd (run as s))"
proof (induction as arbitrary: s)
  case Nil
  then show ?case by simp
next
  case (Cons a as)
  show ?case
  proof (cases a)
    case (Download options)
    have "single_flight_inv (snd (download options s))"
      using Cons.prems by (rule inv_download)
    from Cons.IH [OF this] show ?thesis
      using Download by (simp add: split_beta)
  next
    case (Settle p outcome)
    have "single_flight_inv (settle p outcome s)"
      using Cons.prems by (rule inv_settle)
    from Cons.IH [OF this] show ?thesis
      using Settle by simp
  qed
qed

lemma settle_other:
  "single_flight_inv s \<Longrightarrow> downloading s = Some p \<Longrightarrow> q \<noteq> p \<Longrightarrow> settle q outcome s = s"
  by (auto simp: single_flight_inv_def settle_def)

lemma download_in_flight: "downloading s = Some p \<Longrightarrow> download options s = (p, s)"
  by (simp add: download_def)

lemma download_all_in_flight:
  "downloading s = Some p \<Longrightarrow> download_all os s = (replicate (length os) p, s)"
  by (induction os) (simp_all add: download_in_flight)

text \<open>
  Calls issued one after the other on an empty slot: one call of \<^verbatim>\<open>appDownload\<close>, with
  the options of the first caller, and the same promise for every caller.
\<close>

lemma download_all_once:
  "downloading s = None \<Longrightarrow>
   fst (download_all (options # rest) s) = replicate (Suc (length rest)) (length (promises s))
   \<and> appDownload_calls (snd (download_all (options # rest) s)) = appDownload_calls s @ [options]"
proof -
  assume empty: "downloading s = None"
  obtain p s1 where d: "download options s = (p, s1)" by (cases "download options s")
  then have p: "p = length (promises s)"
    and s1: "downloading s1 = Some p" "appDownload_calls s1 = appDownload_calls s @ [options]"
    using empty by (auto simp: download_def Let_def)
  have "download_all rest s1 = (replicate (length rest) p, s1)"
    using s1(1) by (rule download_all_in_flight)
  then show ?thesis using d p s1 by simp
qed

lemma settle_success_releases:
  "p < length (promises s) \<Longrightarrow> promises s ! p = Pending \<Longrightarrow>
   downloading (settle p (Inr result) s) = None"
  by (simp add: settle_def)

lemma run_in_flight:
  "single_flight_inv s \<Longrightarrow> downloading s = Some p \<Longrightarrow> \<forall>a\<in>set as. \<not> settles p a \<Longrightarrow>
   set (fst (run as s)) \<subseteq> {p} \<and> snd (run as s) = s"
proof (induction as)
  case Nil
  then show ?case by simp
next
  case (Cons a as)
  then have IH: "set (fst (run as s)) \<subseteq> {p} \<and> snd (run as s) = s" by simp
  show ?case
  proof (cases a)
    case (Download options)
    then show ?thesis using IH Cons.prems(2)
      by (simp add: download_in_flight split_beta)
  next
    case (Settle q outcome)
    then have "q \<noteq> p" using Cons.prems(3) by auto
    then have "settle q outcome s = s"
      using Cons.prems(1,2) by (simp add: settle_other)
    then show ?thesis using IH Settle by simp
  qed
qed

text \<open>
  C1: in every state the app can reach, when the in-flight slot is set to a promise,
  then, as long as that promise is not settled, every further call of download returns
  that same promise (and so its result), \<^verbatim>\<open>appDownload\<close> is not called again, and the
  slot stays as it is.
\<close>

theorem download_single_flight:
  assumes "run pre initial_state = (ps, s)"
    and "downloading s = Some p"
    and "\<forall>a\<in>set as. \<not> settles p a"
  shows "set (fst (run as s)) \<subseteq> {p}
         \<and> appDownload_calls (snd (run as s)) = appDownload_calls s
         \<and> downloading (snd (run as s)) = Some p"
proof -
  have "single_flight_inv (snd (run pre initial_state))"
    using inv_initial by (rule inv_run)
  then have "single_flight_inv s" using assms(1) by simp
  from run_in_flight [OF this assms(2) assms(3)] show ?thesis
    using assms(2) by simp
qed

theorem download_single_flight_witness:
  "run [Download default_download] initial_state = ([0], one_in_flight)
   \<and> downloading one_in_flight = Some 0
   \<and> \<not> settles 0 (Download no_install)
   \<and> \<not> settles 0 (Download default_download)
   \<and> fst (run [Download no_install, Download default_download] one_in_flight) = [0, 0]
   \<and> appDownload_calls (snd (run [Download no_install, Download default_download] one_in_flight))
       = [default_download]"
proof -
  have h1: "run [Download default_download] initial_state = ([0], one_in_flight)"
    by (simp add: download_def initial_state_def one_in_flight_def)
  have h2: "downloading one_in_flight = Some 0"
    by (simp add: one_in_flight_def)
  have h3: "\<forall>a\<in>set [Download no_install, Download default_download]. \<not> settles 0 a"
    by simp
  have "fst (run [Download no_install, Download default_download] one_in_flight) = [0, 0]"
    by (simp add: download_def one_in_flight_def)
  then show ?thesis
    using h1 h2 h3 download_single_flight [OF h1 h2 h3]
    by (simp add: one_in_flight_def)
qed

text \<open>
  C2 does not hold of the code: a first download whose operation fails leaves the
  rejected promise in the slot. The second call of download returns that same rejected
  promise, and \<^verbatim>\<open>appDownload\<close> has been called once only.
\<close>

theorem download_failure_keeps_slot:
  "run [Download default_download, Settle 0 (Inl (Error ''network'')), Download default_download]
       initial_state
     = ([0, 0],
        \<lparr> downloading = Some 0, isDownloading = None,
          promises = [RejectedWith (Error ''network'')],
          appDownload_calls = [default_download] \<rparr>)"
  by (simp add: download_def settle_def initial_state_def)

section \<open>Properties of the lifecycle\<close>

lemma stop_resolved:
  "stop caps a h = (Resolved r, evs) \<Longrightarrow>
     r = \<lparr> stopped_id = app_id a, stopped = True \<rparr>
     \<and> evs = (if pm2_isInstalled caps then [Pm2_connect, Pm2_delete (processName a)] else [])"
  by (auto simp: stop_def split: if_splits outcome.splits)

lemma stop_never_starts: "stop caps a h = (out, evs) \<Longrightarrow> Shell_exec c \<notin> set evs"
  by (auto simp: stop_def split: if_splits outcome.splits)

text \<open>
  What start() has done when it resolves with started: the update has resolved, then
  stop() has resolved, and the command that starts the process comes after both.
\<close>

lemma start_awaits_stop:
  assumes "app pf st = Inr a"
    and "start caps a h = (Resolved r, evs)"
    and "sr_started r"
  shows "\<exists>status evs1 evs2.
           update caps a \<lparr> opt_start = Some False \<rparr> h = (Resolved status, evs1)
         \<and> stop caps a (h @ evs1) = (Resolved \<lparr> stopped_id = app_id a, stopped = True \<rparr>, evs2)
         \<and> evs2 = (if pm2_isInstalled caps
                    then [Pm2_connect, Pm2_delete (app_id a @ '':'' @ string_of_nat (app_port a))]
                    else [])
         \<and> evs = evs1 @ evs2 @ [Shell_cd (app_localFolder a),
                                 Shell_exec (pm2_start_command a),
                                 Shell_cd (WORKING_DIRECTORY a)]"
proof -
  obtain u evs1 where u: "update caps a \<lparr> opt_start = Some False \<rparr> h = (u, evs1)"
    by (cases "update caps a \<lparr> opt_start = Some False \<rparr> h")
  obtain status where status: "u = Resolved status"
    using assms(2) u by (cases u) (auto simp: start_def)
  obtain s evs2 where s: "stop caps a (h @ evs1) = (s, evs2)"
    by (cases "stop caps a (h @ evs1)")
  obtain sr where sr: "s = Resolved sr"
    using assms(2) u status s by (cases s) (auto simp: start_def)
  have shape: "sr = \<lparr> stopped_id = app_id a, stopped = True \<rparr>
      \<and> evs2 = (if pm2_isInstalled caps then [Pm2_connect, Pm2_delete (processName a)] else [])"
    using s sr stop_resolved by blast
  have "evs = evs1 @ evs2 @ [Shell_cd (app_localFolder a),
                             Shell_exec (pm2_start_command a),
                             Shell_cd (WORKING_DIRECTORY a)]"
    using assms(2,3) u status s sr by (auto simp: start_def Let_def split: if_splits)
  then show ?thesis
    using u status s sr shape app_processName [OF assms(1)] by simp
qed

text \<open>The pm2 adapter of the closed capabilities is that of the base, at every depth.\<close>

lemma app_capabilities_pm2:
  "pm2_isInstalled (app_capabilities base rm a n) = pm2_isInstalled base
   \<and> pm2_connect (app_capabilities base rm a n) = pm2_connect base
   \<and> pm2_delete (app_capabilities base rm a n) = pm2_delete base"
  by (cases n) simp_all

lemma stop_app_capabilities:
  "stop (app_capabilities base rm a n) a' h = stop base a' h"
  by (simp add: stop_def app_capabilities_pm2 split: outcome.splits)

text \<open>With the option start false the procedure never calls the start callback.\<close>

lemma appUpdate_model_no_start:
  "appUpdate_model i f (\<lambda>h. (vf h, [App_version])) (\<lambda>h. (df h, [App_download])) start_cb
      \<lparr> opt_start = Some False \<rparr> h = (out, evs) \<Longrightarrow>
   set evs \<subseteq> {App_version, App_download}"
  by (auto simp: appUpdate_model_def split: outcome.splits if_splits)

lemma appUpdate_model_ignores_start:
  "appUpdate_model i f getVersion download_cb start_cb \<lparr> opt_start = Some False \<rparr> h
     = appUpdate_model i f getVersion download_cb start_cb' \<lparr> opt_start = Some False \<rparr> h"
  by (auto simp: appUpdate_model_def split: outcome.splits prod.splits)

lemma update_no_start_quiet:
  assumes "update (app_capabilities base rm a (Suc n)) a \<lparr> opt_start = Some False \<rparr> h = (out, evs)"
  shows "Shell_exec c \<notin> set evs"
proof -
  obtain u uevs where u:
    "appUpdate (app_capabilities base rm a (Suc n)) \<lparr> opt_start = Some False \<rparr> h = (u, uevs)"
    by (cases "appUpdate (app_capabilities base rm a (Suc n)) \<lparr> opt_start = Some False \<rparr> h")
  then have "set uevs \<subseteq> {App_version, App_download}"
    by (simp add: appUpdate_model_no_start)
  then have "Shell_exec c \<notin> set uevs" by auto
  then show ?thesis
    using assms u by (cases u) (auto simp: update_def split: if_splits)
qed

text \<open>
  In the closed lifecycle the start command appears among the calls of start() only
  as the last but one call, right after a stop() that has resolved.
\<close>

lemma start_closed_shape:
  assumes "start (app_capabilities base rm a (Suc n)) a h = (out, evs)"
    and "Shell_exec (pm2_start_command a) \<in> set evs"
  shows "\<exists>pre sevs.
           evs = pre @ sevs @ [Shell_cd (app_localFolder a),
                               Shell_exec (pm2_start_command a),
                               Shell_cd (WORKING_DIRECTORY a)]
         \<and> stop base a (h @ pre) = (Resolved \<lparr> stopped_id = app_id a, stopped = True \<rparr>, sevs)
         \<and> sevs = (if pm2_isInstalled base then [Pm2_connect, Pm2_delete (processName a)] else [])
         \<and> Shell_exec (pm2_start_command a) \<notin> set pre"
proof -
  let ?caps = "app_capabilities base rm a (Suc n)"
  let ?x = "Shell_exec (pm2_start_command a)"
  obtain u evs1 where u: "update ?caps a \<lparr> opt_start = Some False \<rparr> h = (u, evs1)"
    by (cases "update ?caps a \<lparr> opt_start = Some False \<rparr> h")
  have q1: "?x \<notin> set evs1" using u by (rule update_no_start_quiet)
  obtain s evs2 where s: "stop ?caps a (h @ evs1) = (s, evs2)"
    by (cases "stop ?caps a (h @ evs1)")
  have sb: "stop base a (h @ evs1) = (s, evs2)"
    using s unfolding stop_app_capabilities .
  have q2: "?x \<notin> set evs2" using s by (rule stop_never_starts)
  show ?thesis
  proof (cases u)
    case (Rejected err)
    then have "evs = evs1" using assms(1) u by (simp add: start_def)
    then show ?thesis using assms(2) q1 by simp
  next
    case (Resolved status)
    note status = this
    show ?thesis
    proof (cases s)
      case (Rejected err)
      then have "evs = evs1 @ evs2" using assms(1) u s status by (simp add: start_def)
      then show ?thesis using assms(2) q1 q2 by simp
    next
      case (Resolved sr)
      have shape: "sr = \<lparr> stopped_id = app_id a, stopped = True \<rparr>
          \<and> evs2 = (if pm2_isInstalled base then [Pm2_connect, Pm2_delete (processName a)]
                     else [])"
        using sb Resolved stop_resolved by blast
      show ?thesis
      proof (cases "st_exists status = Some False")
        case True
        then have "evs = evs1 @ evs2 @ [Log_warn (msg_cannot_start a)]"
          using assms(1) u s status Resolved by (simp add: start_def)
        then show ?thesis using assms(2) q1 q2 by simp
      next
        case False
        then have "evs = evs1 @ evs2 @ [Shell_cd (app_localFolder a), ?x,
                                        Shell_cd (WORKING_DIRECTORY a)]"
          using assms(1) u s status Resolved by (simp add: start_def)
        moreover have "stop base a (h @ evs1)
            = (Resolved \<lparr> stopped_id = app_id a, stopped = True \<rparr>, evs2)"
          using sb Resolved shape by simp
        ultimately show ?thesis
          using shape q1 by blast
      qed
    qed
  qed
qed

lemma update_closed_shape:
  assumes "update (app_capabilities base rm a (Suc (Suc n))) a options h = (out, uevs)"
    and "Shell_exec (pm2_start_command a) \<in> set uevs"
  shows "\<exists>pre sevs post.
           uevs = pre @ sevs @ [Shell_cd (app_localFolder a),
                                Shell_exec (pm2_start_command a),
                                Shell_cd (WORKING_DIRECTORY a)] @ post
         \<and> stop base a (h @ pre) = (Resolved \<lparr> stopped_id = app_id a, stopped = True \<rparr>, sevs)
         \<and> sevs = (if pm2_isInstalled base then [Pm2_connect, Pm2_delete (processName a)] else [])
         \<and> Shell_exec (pm2_start_command a) \<notin> set pre
         \<and> Shell_exec (pm2_start_command a) \<notin> set post"
proof -
  let ?caps = "app_capabilities base rm a (Suc (Suc n))"
  let ?inner = "app_capabilities base rm a (Suc n)"
  let ?x = "Shell_exec (pm2_start_command a)"
  let ?tail = "[Shell_cd (app_localFolder a), ?x, Shell_cd (WORKING_DIRECTORY a)]"
  obtain u evs0 where u: "appUpdate ?caps options h = (u, evs0)"
    by (cases "appUpdate ?caps options h")
  obtain post where post: "uevs = evs0 @ post" "?x \<notin> set post"
    using assms(1) u by (cases u) (auto simp: update_def split: if_splits)
  have in0: "?x \<in> set evs0" using assms(2) post by auto
  have model: "appUpdate_model (app_id a) (app_localFolder a)
                 (\<lambda>h. (app_version rm h, [App_version]))
                 (\<lambda>h. (app_download rm h, [App_download]))
                 (start ?inner a) options h = (u, evs0)"
    using u by simp
  obtain sout sevs0 where st: "start ?inner a (h @ [App_version, App_download]) = (sout, sevs0)"
    by (cases "start ?inner a (h @ [App_version, App_download])")
  have evs0: "evs0 = [App_version, App_download] @ sevs0"
    using model in0 st
    by (auto simp: appUpdate_model_def split: outcome.splits if_splits)
  then have "?x \<in> set sevs0" using in0 by auto
  from start_closed_shape [OF st this]
  obtain pre sevs where shape:
    "sevs0 = pre @ sevs @ ?tail"
    "stop base a ((h @ [App_version, App_download]) @ pre)
       = (Resolved \<lparr> stopped_id = app_id a, stopped = True \<rparr>, sevs)"
    "sevs = (if pm2_isInstalled base then [Pm2_connect, Pm2_delete (processName a)] else [])"
    "?x \<notin> set pre"
    by blast
  let ?pre = "[App_version, App_download] @ pre"
  have "uevs = ?pre @ sevs @ ?tail @ post"
    using post(1) evs0 shape(1) by simp
  moreover have "stop base a (h @ ?pre)
       = (Resolved \<lparr> stopped_id = app_id a, stopped = True \<rparr>, sevs)"
    using shape(2) by simp
  moreover have "?x \<notin> set ?pre" using shape(4) by simp
  ultimately show ?thesis using shape(3) post(2) by blast
qed

text \<open>Nesting deeper than twice changes nothing.\<close>

lemma start_closed_depth:
  "start (app_capabilities base rm a (Suc n)) a h = start (app_capabilities base rm a (Suc 0)) a h"
proof -
  have "update (app_capabilities base rm a (Suc n)) a \<lparr> opt_start = Some False \<rparr> h
      = update (app_capabilities base rm a (Suc 0)) a \<lparr> opt_start = Some False \<rparr> h"
    using appUpdate_model_ignores_start
      [of "app_id a" "app_localFolder a" "\<lambda>h. (app_version rm h, [App_version])"
          "\<lambda>h. (app_download rm h, [App_download])"
          "start (app_capabilities base rm a n) a" h
          "start (app_capabilities base rm a 0) a"]
    by (simp add: update_def)
  then show ?thesis
    unfolding start_def stop_app_capabilities by (rule arg_cong)
qed

lemma update_closed_depth:
  "update (app_capabilities base rm a (Suc (Suc n))) a options h
     = update (app_capabilities base rm a (Suc (Suc 0))) a options h"
proof -
  have "start (app_capabilities base rm a (Suc n)) a
      = start (app_capabilities base rm a (Suc 0)) a"
    by (rule ext) (rule start_closed_depth)
  then show ?thesis by (simp add: update_def)
qed

text \<open>
  C3: whenever start() of a registered app gets as far as starting the process (it
  resolves with started), the update has resolved, then stop() has resolved (having
  connected and deleted the process named "<id>:<port>" when pm2 is installed), and only
  after these calls comes the command that starts the process. The same holds of every
  update() in the closed lifecycle, where the update procedure is handed this start():
  whatever its options and its outcome, if the update issues the command that starts the
  process, it issues it once, and right before it a stop() of the process named
  "<id>:<port>" has resolved.
\<close>

theorem start_stops_first:
  assumes "app pf st = Inr a"
  shows "(start caps a h = (Resolved r, evs) \<and> sr_started r \<longrightarrow>
           (\<exists>status evs1 evs2.
               update caps a \<lparr> opt_start = Some False \<rparr> h = (Resolved status, evs1)
             \<and> stop caps a (h @ evs1)
                 = (Resolved \<lparr> stopped_id = app_id a, stopped = True \<rparr>, evs2)
             \<and> evs2 = (if pm2_isInstalled caps
                        then [Pm2_connect,
                              Pm2_delete (app_id a @ '':'' @ string_of_nat (app_port a))]
                        else [])
             \<and> evs = evs1 @ evs2 @ [Shell_cd (app_localFolder a),
                                     Shell_exec (pm2_start_command a),
                                     Shell_cd (WORKING_DIRECTORY a)]))
       \<and> (update (app_capabilities base rm a (Suc (Suc n))) a options h' = (out, uevs)
            \<and> Shell_exec (pm2_start_command a) \<in> set uevs \<longrightarrow>
           (\<exists>pre sevs post.
               uevs = pre @ sevs @ [Shell_cd (app_localFolder a),
                                    Shell_exec (pm2_start_command a),
                                    Shell_cd (WORKING_DIRECTORY a)] @ post
             \<and> stop (app_capabilities base rm a (Suc (Suc n))) a (h' @ pre)
                 = (Resolved \<lparr> stopped_id = app_id a, stopped = True \<rparr>, sevs)
             \<and> sevs = (if pm2_isInstalled (app_capabilities base rm a (Suc (Suc n)))
                        then [Pm2_connect,
                              Pm2_delete (app_id a @ '':'' @ string_of_nat (app_port a))]
                        else [])
             \<and> Shell_exec (pm2_start_command a) \<notin> set pre
             \<and> Shell_exec (pm2_start_command a) \<notin> set post))"
proof (intro conjI impI)
  assume "start caps a h = (Resolved r, evs) \<and> sr_started r"
  then show "\<exists>status evs1 evs2.
               update caps a \<lparr> opt_start = Some False \<rparr> h = (Resolved status, evs1)
             \<and> stop caps a (h @ evs1)
                 = (Resolved \<lparr> stopped_id = app_id a, stopped = True \<rparr>, evs2)
             \<and> evs2 = (if pm2_isInstalled caps
                        then [Pm2_connect,
                              Pm2_delete (app_id a @ '':'' @ string_of_nat (app_port a))]
                        else [])
             \<and> evs = evs1 @ evs2 @ [Shell_cd (app_localFolder a),
                                     Shell_exec (pm2_start_command a),
                                     Shell_cd (WORKING_DIRECTORY a)]"
    using start_awaits_stop [OF assms] by blast
next
  let ?caps = "app_capabilities base rm a (Suc (Suc n))"
  assume "update ?caps a options h' = (out, uevs)
            \<and> Shell_exec (pm2_start_command a) \<in> set uevs"
  then have u: "update ?caps a options h' = (out, uevs)"
    and x: "Shell_exec (pm2_start_command a) \<in> set uevs"
    by blast+
  have name: "processName a = app_id a @ '':'' @ string_of_nat (app_port a)"
    using assms by (rule app_processName)
  have inst: "pm2_isInstalled ?caps = pm2_isInstalled base"
    using app_capabilities_pm2 [of base rm a "Suc (Suc n)"] by blast
  from update_closed_shape [OF u x]
  show "\<exists>pre sevs post.
               uevs = pre @ sevs @ [Shell_cd (app_localFolder a),
                                    Shell_exec (pm2_start_command a),
                                    Shell_cd (WORKING_DIRECTORY a)] @ post
             \<and> stop ?caps a (h' @ pre)
                 = (Resolved \<lparr> stopped_id = app_id a, stopped = True \<rparr>, sevs)
             \<and> sevs = (if pm2_isInstalled ?caps
                        then [Pm2_connect,
                              Pm2_delete (app_id a @ '':'' @ string_of_nat (app_port a))]
                        else [])
             \<and> Shell_exec (pm2_start_command a) \<notin> set pre
             \<and> Shell_exec (pm2_start_command a) \<notin> set post"
    unfolding stop_app_capabilities inst name by blast
qed

theorem start_stops_first_witness:
  "app example_platform svc_a_settings = Inr svc_a
   \<and> start pm2_ready svc_a []
       = (Resolved \<lparr> sr_id = ''svc-a'', sr_port = 3000, sr_routes = [''/svc-a''],
                     sr_version = Some ''1.2.0'', sr_started = True, sr_exists = True \<rparr>,
          [Pm2_connect, Pm2_delete ''svc-a:3000'', Shell_cd ''/srv/./.build/svc-a'',
           Shell_exec (pm2_start_command svc_a), Shell_cd ''/srv''])
   \<and> stop pm2_ready svc_a []
       = (Resolved \<lparr> stopped_id = ''svc-a'', stopped = True \<rparr>,
          [Pm2_connect, Pm2_delete ''svc-a:3000''])
   \<and> update (app_capabilities pm2_ready newer_remote svc_a (Suc (Suc 0))) svc_a
        \<lparr> opt_start = None \<rparr> []
       = (Resolved \<lparr> st_exists = Some True, st_updated = True, st_version = Some ''1.3.0'',
                     st_started = Some True \<rparr>,
          [App_version, App_download, App_version, Pm2_connect, Pm2_delete ''svc-a:3000'',
           Shell_cd ''/srv/./.build/svc-a'', Shell_exec (pm2_start_command svc_a),
           Shell_cd ''/srv''])
   \<and> stop (app_capabilities pm2_ready newer_remote svc_a (Suc (Suc 0))) svc_a
        [App_version, App_download, App_version]
       = (Resolved \<lparr> stopped_id = ''svc-a'', stopped = True \<rparr>,
          [Pm2_connect, Pm2_delete ''svc-a:3000''])"
proof -
  let ?r = "\<lparr> sr_id = ''svc-a'', sr_port = 3000, sr_routes = [''/svc-a''],
              sr_version = Some ''1.2.0'', sr_started = True, sr_exists = True \<rparr>"
  let ?evs = "[Pm2_connect, Pm2_delete ''svc-a:3000'', Shell_cd ''/srv/./.build/svc-a'',
               Shell_exec (pm2_start_command svc_a), Shell_cd ''/srv'']"
  let ?closed = "app_capabilities pm2_ready newer_remote svc_a (Suc (Suc 0))"
  let ?u = "\<lparr> st_exists = Some True, st_updated = True, st_version = Some ''1.3.0'',
              st_started = Some True \<rparr>"
  let ?uevs = "[App_version, App_download, App_version, Pm2_connect,
                Pm2_delete ''svc-a:3000'', Shell_cd ''/srv/./.build/svc-a'',
                Shell_exec (pm2_start_command svc_a), Shell_cd ''/srv'']"
  have h1: "app example_platform svc_a_settings = Inr svc_a"
    by (rule app_svc_a)
  have h2: "start pm2_ready svc_a [] = (Resolved ?r, ?evs)"
    by (simp add: start_def update_def stop_def pm2_ready_def caps_of_def status_current_def
        svc_a_def)
  have h3: "sr_started ?r" by simp
  have h4: "update ?closed svc_a \<lparr> opt_start = None \<rparr> [] = (Resolved ?u, ?uevs)"
    by (simp add: update_def appUpdate_model_def start_def stop_def pm2_ready_def caps_of_def
        newer_remote_def svc_a_def)
  have h5: "Shell_exec (pm2_start_command svc_a) \<in> set ?uevs" by simp
  have s1: "stop pm2_ready svc_a []
       = (Resolved \<lparr> stopped_id = ''svc-a'', stopped = True \<rparr>,
          [Pm2_connect, Pm2_delete ''svc-a:3000''])"
    by (simp add: stop_def pm2_ready_def caps_of_def svc_a_def)
  have s2: "stop ?closed svc_a [App_version, App_download, App_version]
       = (Resolved \<lparr> stopped_id = ''svc-a'', stopped = True \<rparr>,
          [Pm2_connect, Pm2_delete ''svc-a:3000''])"
    by (simp add: stop_def pm2_ready_def caps_of_def svc_a_def)
  have both: "(\<exists>status evs1 evs2.
               update pm2_ready svc_a \<lparr> opt_start = Some False \<rparr> [] = (Resolved status, evs1)
             \<and> stop pm2_ready svc_a ([] @ evs1)
                 = (Resolved \<lparr> stopped_id = app_id svc_a, stopped = True \<rparr>, evs2)
             \<and> evs2 = (if pm2_isInstalled pm2_ready
                        then [Pm2_connect,
                              Pm2_delete (app_id svc_a @ '':'' @ string_of_nat (app_port svc_a))]
                        else [])
             \<and> ?evs = evs1 @ evs2 @ [Shell_cd (app_localFolder svc_a),
                                     Shell_exec (pm2_start_command svc_a),
                                     Shell_cd (WORKING_DIRECTORY svc_a)])
       \<and> (\<exists>pre sevs post.
               ?uevs = pre @ sevs @ [Shell_cd (app_localFolder svc_a),
                                    Shell_exec (pm2_start_command svc_a),
                                    Shell_cd (WORKING_DIRECTORY svc_a)] @ post
             \<and> stop ?closed svc_a ([] @ pre)
                 = (Resolved \<lparr> stopped_id = app_id svc_a, stopped = True \<rparr>, sevs)
             \<and> sevs = (if pm2_isInstalled ?closed
                        then [Pm2_connect,
                              Pm2_delete (app_id svc_a @ '':'' @ string_of_nat (app_port svc_a))]
                        else [])
             \<and> Shell_exec (pm2_start_command svc_a) \<notin> set pre
             \<and> Shell_exec (pm2_start_command svc_a) \<notin> set post)"
    using start_stops_first [OF h1, where caps = pm2_ready and h = "[]" and r = ?r
        and evs = ?evs and base = pm2_ready and rm = newer_remote and n = 0
        and options = "\<lparr> opt_start = None \<rparr>" and h' = "[]" and out = "Resolved ?u"
        and uevs = ?uevs] h2 h3 h4 h5
    by blast
  show ?thesis using h1 h2 h4 s1 s2 both by blast
qed

text \<open>
  C4, as the claim states it, fails: the update resolves with exists false, but pm2 is
  installed and its connect fails, so stop() rejects and start() rejects with that error.
\<close>

theorem start_missing_remote_counterexample:
  "update (caps_of True (Rejected (Error ''connect failed'')) (Resolved ())
             (Resolved status_missing))
      svc_a \<lparr> opt_start = Some False \<rparr> [] = (Resolved status_missing, [])
   \<and> st_exists status_missing = Some False
   \<and> start (caps_of True (Rejected (Error ''connect failed'')) (Resolved ())
              (Resolved status_missing))
        svc_a [] = (Rejected (Error ''connect failed''), [Pm2_connect])"
  by (simp add: start_def update_def stop_def caps_of_def status_missing_def svc_a_def)

text \<open>
  C4 (amended): when the update resolves with exists false, start() never tells the
  process supervisor to start the process; if the stop() it awaits resolves, start()
  resolves with started false and exists false, after a warning; if that stop() rejects,
  start() rejects with the same error.
\<close>

theorem start_missing_remote:
  assumes "update caps a \<lparr> opt_start = Some False \<rparr> h = (Resolved status, evs1)"
    and "st_exists status = Some False"
    and "stop caps a (h @ evs1) = (stopping, evs2)"
  shows "start caps a h =
           (case stopping of
              Resolved _ \<Rightarrow>
                (Resolved \<lparr> sr_id = app_id a, sr_port = app_port a, sr_routes = app_routes a,
                             sr_version = st_version status,
                             sr_started = False, sr_exists = False \<rparr>,
                 evs1 @ evs2 @ [Log_warn (msg_cannot_start a)])
            | Rejected err \<Rightarrow> (Rejected err, evs1 @ evs2))
         \<and> Shell_exec (pm2_start_command a) \<notin> set evs2"
proof -
  have "Shell_exec (pm2_start_command a) \<notin> set evs2"
    using assms(3) by (rule stop_never_starts)
  moreover have "start caps a h =
           (case stopping of
              Resolved _ \<Rightarrow>
                (Resolved \<lparr> sr_id = app_id a, sr_port = app_port a, sr_routes = app_routes a,
                             sr_version = st_version status,
                             sr_started = False, sr_exists = False \<rparr>,
                 evs1 @ evs2 @ [Log_warn (msg_cannot_start a)])
            | Rejected err \<Rightarrow> (Rejected err, evs1 @ evs2))"
    using assms by (cases stopping) (simp_all add: start_def)
  ultimately show ?thesis by simp
qed

theorem start_missing_remote_witness:
  "update (caps_of True (Resolved ()) (Resolved ()) (Resolved status_missing)) svc_a
      \<lparr> opt_start = Some False \<rparr> [] = (Resolved status_missing, [])
   \<and> st_exists status_missing = Some False
   \<and> stop (caps_of True (Resolved ()) (Resolved ()) (Resolved status_missing)) svc_a ([] @ [])
       = (Resolved \<lparr> stopped_id = ''svc-a'', stopped = True \<rparr>,
          [Pm2_connect, Pm2_delete ''svc-a:3000''])
   \<and> start (caps_of True (Resolved ()) (Resolved ()) (Resolved status_missing)) svc_a []
       = (Resolved \<lparr> sr_id = ''svc-a'', sr_port = 3000, sr_routes = [''/svc-a''],
                     sr_version = None, sr_started = False, sr_exists = False \<rparr>,
          [Pm2_connect, Pm2_delete ''svc-a:3000'', Log_warn (msg_cannot_start svc_a)])"
proof -
  let ?caps = "caps_of True (Resolved ()) (Resolved ()) (Resolved status_missing)"
  have h1: "update ?caps svc_a \<lparr> opt_start = Some False \<rparr> [] = (Resolved status_missing, [])"
    by (simp add: update_def caps_of_def status_missing_def)
  have h2: "st_exists status_missing = Some False"
    by (simp add: status_missing_def)
  have h3: "stop ?caps svc_a ([] @ [])
       = (Resolved \<lparr> stopped_id = ''svc-a'', stopped = True \<rparr>,
          [Pm2_connect, Pm2_delete ''svc-a:3000''])"
    by (simp add: stop_def caps_of_def svc_a_def)
  show ?thesis
    using h1 h2 h3 start_missing_remote [OF h1 h2 h3]
    by (simp add: svc_a_def status_missing_def)
qed

text \<open>
  C5: for an app with a publish callback, update() settles as \<^verbatim>\<open>appUpdate\<close> does, and
  beyond what \<^verbatim>\<open>appUpdate\<close> did it calls the callback once, with the event name
  "app:updated" and the payload of the app's id and the result's version, exactly when
  the result is flagged updated; with a result that is not, or with a rejection, it does
  not call it.
\<close>

theorem update_publishes:
  assumes "publishEvent a"
    and "appUpdate caps options h = (out0, evs0)"
  shows "update caps a options h =
           (out0,
            evs0 @ (case out0 of
                      Resolved result \<Rightarrow>
                        if st_updated result
                        then [PublishEvent ''app:updated''
                                (IdVersion (app_id a) (st_version result))]
                        else []
                    | Rejected err \<Rightarrow> []))"
  using assms by (cases out0) (simp_all add: update_def)

theorem update_publishes_witness:
  "publishEvent svc_a_publishing
   \<and> update (caps_of True (Resolved ()) (Resolved ()) (Resolved status_updated))
        svc_a_publishing \<lparr> opt_start = None \<rparr> []
       = (Resolved status_updated,
          [PublishEvent ''app:updated'' (IdVersion ''svc-a'' (Some ''1.3.0''))])
   \<and> update (caps_of True (Resolved ()) (Resolved ()) (Resolved status_current))
        svc_a_publishing \<lparr> opt_start = None \<rparr> []
       = (Resolved status_current, [])"
proof -
  have h1: "publishEvent svc_a_publishing"
    by (simp add: svc_a_publishing_def)
  have h2: "appUpdate (caps_of True (Resolved ()) (Resolved ()) (Resolved status_updated))
              \<lparr> opt_start = None \<rparr> [] = (Resolved status_updated, [])"
    by (simp add: caps_of_def)
  have h3: "appUpdate (caps_of True (Resolved ()) (Resolved ()) (Resolved status_current))
              \<lparr> opt_start = None \<rparr> [] = (Resolved status_current, [])"
    by (simp add: caps_of_def)
  show ?thesis
    using h1 update_publishes [OF h1 h2] update_publishes [OF h1 h3]
    by (simp add: status_updated_def status_current_def svc_a_publishing_def svc_a_def)
qed

text \<open>
  C6, as the claim states it, fails: with pm2 installed and a connect that fails, stop()
  rejects.
\<close>

theorem stop_rejects_counterexample:
  "stop (caps_of True (Rejected (Error ''connect failed'')) (Resolved ())
           (Resolved status_current)) svc_a []
     = (Rejected (Error ''connect failed''), [Pm2_connect])"
  by (simp add: stop_def caps_of_def)

text \<open>
  C6 (amended): stop() does nothing and resolves with the id and stopped true when pm2 is
  not installed; when it is, stop() connects and deletes the named process and resolves
  with the id and stopped true if both calls succeed; if the connect or the delete fails,
  stop() rejects with that error.
\<close>

theorem stop_outcomes:
  "(\<not> pm2_isInstalled caps \<longrightarrow>
      stop caps a h = (Resolved \<lparr> stopped_id = app_id a, stopped = True \<rparr>, []))
   \<and> (pm2_isInstalled caps \<and> pm2_connect caps h = Resolved ()
        \<and> pm2_delete caps (processName a) (h @ [Pm2_connect]) = Resolved () \<longrightarrow>
      stop caps a h = (Resolved \<lparr> stopped_id = app_id a, stopped = True \<rparr>,
                       [Pm2_connect, Pm2_delete (processName a)]))
   \<and> (pm2_isInstalled caps \<and> pm2_connect caps h = Rejected err \<longrightarrow>
      stop caps a h = (Rejected err, [Pm2_connect]))
   \<and> (pm2_isInstalled caps \<and> pm2_connect caps h = Resolved ()
        \<and> pm2_delete caps (processName a) (h @ [Pm2_connect]) = Rejected err \<longrightarrow>
      stop caps a h = (Rejected err, [Pm2_connect, Pm2_delete (processName a)]))"
  by (simp add: stop_def)

theorem stop_outcomes_witness:
  "stop (caps_of False (Resolved ()) (Resolved ()) (Resolved status_current)) svc_a []
       = (Resolved \<lparr> stopped_id = ''svc-a'', stopped = True \<rparr>, [])
   \<and> stop (caps_of True (Resolved ()) (Resolved ()) (Resolved status_current)) svc_a []
       = (Resolved \<lparr> stopped_id = ''svc-a'', stopped = True \<rparr>,
          [Pm2_connect, Pm2_delete ''svc-a:3000''])
   \<and> stop (caps_of True (Rejected (Error ''no daemon'')) (Resolved ())
             (Resolved status_current)) svc_a []
       = (Rejected (Error ''no daemon''), [Pm2_connect])
   \<and> stop (caps_of True (Resolved ()) (Rejected (Error ''delete failed''))
             (Resolved status_current)) svc_a []
       = (Rejected (Error ''delete failed''), [Pm2_connect, Pm2_delete ''svc-a:3000''])"
proof -
  have off:
    "stop (caps_of False (Resolved ()) (Resolved ()) (Resolved status_current)) svc_a []
       = (Resolved \<lparr> stopped_id = ''svc-a'', stopped = True \<rparr>, [])"
    using stop_outcomes [where caps = "caps_of False (Resolved ()) (Resolved ())
                                         (Resolved status_current)"
                           and a = svc_a and h = "[]" and err = "Error []"]
    by (simp add: caps_of_def svc_a_def)
  have on:
    "stop (caps_of True (Resolved ()) (Resolved ()) (Resolved status_current)) svc_a []
       = (Resolved \<lparr> stopped_id = ''svc-a'', stopped = True \<rparr>,
          [Pm2_connect, Pm2_delete ''svc-a:3000''])"
    using stop_outcomes [where caps = "caps_of True (Resolved ()) (Resolved ())
                                         (Resolved status_current)"
                           and a = svc_a and h = "[]" and err = "Error []"]
    by (simp add: caps_of_def svc_a_def)
  have no_daemon:
    "stop (caps_of True (Rejected (Error ''no daemon'')) (Resolved ())
             (Resolved status_current)) svc_a []
       = (Rejected (Error ''no daemon''), [Pm2_connect])"
    using stop_outcomes [where caps = "caps_of True (Rejected (Error ''no daemon''))
                                         (Resolved ()) (Resolved status_current)"
                           and a = svc_a and h = "[]" and err = "Error ''no daemon''"]
    by (simp add: caps_of_def svc_a_def)
  have no_delete:
    "stop (caps_of True (Resolved ()) (Rejected (Error ''delete failed''))
             (Resolved status_current)) svc_a []
       = (Rejected (Error ''delete failed''), [Pm2_connect, Pm2_delete ''svc-a:3000''])"
    using stop_outcomes [where caps = "caps_of True (Resolved ())
                                         (Rejected (Error ''delete failed''))
                                         (Resolved status_current)"
                           and a = svc_a and h = "[]" and err = "Error ''delete failed''"]
    by (simp add: caps_of_def svc_a_def)
  show ?thesis using off on no_daemon no_delete by simp
qed

text \<open>
  C10: for an app created without a publish callback, restart() always rejects, and
  when its start() has resolved it rejects with the type error of calling the absent
  callback; update() on the same app is exactly \<^verbatim>\<open>appUpdate\<close>: it adds no call and no
  error, and resolves whenever \<^verbatim>\<open>appUpdate\<close> resolves.
\<close>

theorem restart_without_callback:
  assumes "\<not> publishEvent a"
  shows "(\<exists>err. fst (restart caps a h) = Rejected err)
         \<and> (\<forall>r evs. start caps a h = (Resolved r, evs) \<longrightarrow>
               restart caps a h = (Rejected (TypeError ''publishEvent is not a function''), evs))
         \<and> update caps a options h = appUpdate caps options h"
proof -
  obtain s evs where s: "start caps a h = (s, evs)" by (cases "start caps a h")
  have "\<exists>err. fst (restart caps a h) = Rejected err"
    using assms s by (cases s) (simp_all add: restart_def)
  moreover have "\<forall>r evs. start caps a h = (Resolved r, evs) \<longrightarrow>
               restart caps a h = (Rejected (TypeError ''publishEvent is not a function''), evs)"
    using assms by (simp add: restart_def)
  moreover have "update caps a options h = appUpdate caps options h"
  proof -
    obtain u uevs where u: "appUpdate caps options h = (u, uevs)"
      by (cases "appUpdate caps options h")
    then show ?thesis using assms by (cases u) (simp_all add: update_def)
  qed
  ultimately show ?thesis by simp
qed

theorem restart_without_callback_witness:
  "\<not> publishEvent svc_a
   \<and> fst (start (caps_of True (Resolved ()) (Resolved ()) (Resolved status_updated)) svc_a [])
       = Resolved \<lparr> sr_id = ''svc-a'', sr_port = 3000, sr_routes = [''/svc-a''],
                    sr_version = Some ''1.3.0'', sr_started = True, sr_exists = True \<rparr>
   \<and> fst (restart (caps_of True (Resolved ()) (Resolved ()) (Resolved status_updated)) svc_a [])
       = Rejected (TypeError ''publishEvent is not a function'')
   \<and> update (caps_of True (Resolved ()) (Resolved ()) (Resolved status_updated)) svc_a
        \<lparr> opt_start = None \<rparr> [] = (Resolved status_updated, [])"
proof -
  let ?caps = "caps_of True (Resolved ()) (Resolved ()) (Resolved status_updated)"
  have h1: "\<not> publishEvent svc_a" by (simp add: svc_a_def)
  have h2: "start ?caps svc_a []
       = (Resolved \<lparr> sr_id = ''svc-a'', sr_port = 3000, sr_routes = [''/svc-a''],
                    sr_version = Some ''1.3.0'', sr_started = True, sr_exists = True \<rparr>,
          [Pm2_connect, Pm2_delete ''svc-a:3000'', Shell_cd ''/srv/./.build/svc-a'',
           Shell_exec (pm2_start_command svc_a), Shell_cd ''/srv''])"
    by (simp add: start_def update_def stop_def caps_of_def status_updated_def svc_a_def)
  show ?thesis
    using h1 h2 restart_without_callback [OF h1, of ?caps "[]" "\<lparr> opt_start = None \<rparr>"]
    by (simp add: caps_of_def)
qed

section \<open>Properties of the webhook dispatcher\<close>

lemma updates_of_append: "updates_of (xs @ ys) = updates_of xs @ updates_of ys"
  by (induction xs rule: updates_of.induct) simp_all

lemma updates_of_map: "updates_of (map App_update xs) = xs"
  by (induction xs) simp_all

text \<open>
  C9, as the claim states it, fails: the ref "refs/heads/" is present and its last path
  segment is empty, yet the handler resolves the default branch and updates the app
  registered on it.
\<close>

theorem post_branch_counterexample:
  "ref push_trailing_slash = Some ''refs/heads/''
   \<and> last (js_split CHR ''/'' ''refs/heads/'') = []
   \<and> resolve_branch push_trailing_slash = ''master''
   \<and> resolve_branch push_trailing_slash \<noteq> last (js_split CHR ''/'' ''refs/heads/'')
   \<and> updates_of (post [svc_a] push_trailing_slash) = [svc_a]"
  by (simp add: push_trailing_slash_def resolve_branch_def post_def isRepoMatch_def svc_a_def
      Let_def)

text \<open>
  C9 (amended): for every notification, the branch is the last path segment of ref when
  ref is present and that segment is not empty, and the default branch of the repository
  otherwise; the handler calls update() on exactly the registered apps whose repo name
  and branch are the full name of the repository and that branch, in the order of
  registration, without looking at what the calls give; it always ends by sending the
  response 200, and with no matching app that is all it does.
\<close>

theorem post_dispatch:
  "(ref data = None \<longrightarrow> resolve_branch data = default_branch (repository data))
   \<and> (\<forall>r. ref data = Some r \<longrightarrow>
         resolve_branch data =
           (if last (js_split CHR ''/'' r) = [] then default_branch (repository data)
            else last (js_split CHR ''/'' r)))
   \<and> updates_of (post apps data) =
       filter (\<lambda>a. repo_name (app_repo a) = full_name (repository data)
                    \<and> app_branch a = resolve_branch data) apps
   \<and> (\<exists>evs. post apps data = evs @ [Res_status 200, Res_send])
   \<and> (filter (\<lambda>a. repo_name (app_repo a) = full_name (repository data)
                    \<and> app_branch a = resolve_branch data) apps = [] \<longrightarrow>
        post apps data = [Res_status 200, Res_send])"
proof -
  let ?m = "filter (isRepoMatch (full_name (repository data)) (resolve_branch data)) apps"
  have m: "?m = filter (\<lambda>a. repo_name (app_repo a) = full_name (repository data)
                    \<and> app_branch a = resolve_branch data) apps"
    by (simp add: isRepoMatch_def [abs_def])
  have "ref data = None \<longrightarrow> resolve_branch data = default_branch (repository data)"
    by (simp add: resolve_branch_def)
  moreover have "\<forall>r. ref data = Some r \<longrightarrow>
         resolve_branch data =
           (if last (js_split CHR ''/'' r) = [] then default_branch (repository data)
            else last (js_split CHR ''/'' r))"
    by (auto simp: resolve_branch_def Let_def)
  moreover have "updates_of (post apps data) = ?m"
    by (simp add: post_def Let_def updates_of_append updates_of_map)
  moreover have "\<exists>evs. post apps data = evs @ [Res_status 200, Res_send]"
    by (simp add: post_def Let_def)
  moreover have "?m = [] \<longrightarrow> post apps data = [Res_status 200, Res_send]"
    by (simp add: post_def Let_def)
  ultimately show ?thesis unfolding m by blast
qed

theorem post_dispatch_witness:
  "ref ping_other_repo = None
   \<and> resolve_branch ping_other_repo = ''master''
   \<and> post [svc_a] ping_other_repo = [Res_status 200, Res_send]
   \<and> ref push_master = Some ''refs/heads/master''
   \<and> resolve_branch push_master = ''master''
   \<and> updates_of (post [svc_a] push_master) = [svc_a]"
  using post_dispatch [of ping_other_repo "[svc_a]"] post_dispatch [of push_master "[svc_a]"]
  by (simp add: ping_other_repo_def push_master_def svc_a_def)

end
